theory Spec2Isabelle
  imports Main
begin

section \<open>JavaScript values\<close>

text \<open>
  The web component of \<^verbatim>\<open>public/aventora-chat.js\<close> is untyped JavaScript, so the values
  that reach it (call arguments, parsed JSON bodies, the data of window messages) are
  modelled by one datatype of dynamic values. An object is the list of its own
  properties, looked up by key; \<open>JFile\<close> is an in-memory \<^verbatim>\<open>File\<close> with its name, MIME
  type and content.

  A number is kept as the string that JavaScript prints for it (\<^verbatim>\<open>42\<close>, \<^verbatim>\<open>0.5\<close>,
  \<^verbatim>\<open>1e+21\<close>, \<^verbatim>\<open>-3\<close>; both zeros print as \<^verbatim>\<open>0\<close>). The code never computes with a
  number: it tests it for truthiness and converts it to a string, and the printed form
  decides both.
\<close>

datatype file_obj = File (file_name: string) (file_type: string) (file_content: string)

datatype jsval =
    JUndefined
  | JNull
  | JBool bool
  | JNum string
  | JStr string
  | JArr "jsval list"
  | JObj "(string \<times> jsval) list"
  | JFile file_obj

text \<open>Truthiness, as used by \<^verbatim>\<open>||\<close>, \<^verbatim>\<open>&&\<close>, \<^verbatim>\<open>!\<close> and \<^verbatim>\<open>if\<close>.\<close>

fun truthy :: "jsval \<Rightarrow> bool" where
  "truthy JUndefined = False"
| "truthy JNull = False"
| "truthy (JBool b) = b"
| "truthy (JNum r) = (r \<noteq> ''0'' \<and> r \<noteq> ''NaN'')"
| "truthy (JStr s) = (s \<noteq> [])"
| "truthy (JArr xs) = True"
| "truthy (JObj kvs) = True"
| "truthy (JFile f) = True"

text \<open>\<^verbatim>\<open>a || b\<close> on values.\<close>

definition or_else :: "jsval \<Rightarrow> jsval \<Rightarrow> jsval" where
  "or_else a b = (if truthy a then a else b)"

text \<open>\<^verbatim>\<open>v instanceof File\<close>.\<close>

fun is_File :: "jsval \<Rightarrow> bool" where
  "is_File (JFile f) = True"
| "is_File v = False"

fun typeof :: "jsval \<Rightarrow> string" where
  "typeof JUndefined = ''undefined''"
| "typeof JNull = ''object''"
| "typeof (JBool b) = ''boolean''"
| "typeof (JNum r) = ''number''"
| "typeof (JStr s) = ''string''"
| "typeof (JArr xs) = ''object''"
| "typeof (JObj kvs) = ''object''"
| "typeof (JFile f) = ''object''"

text \<open>
  Reading a property \<^verbatim>\<open>v.k\<close>. On \<^verbatim>\<open>undefined\<close> and \<^verbatim>\<open>null\<close> the read throws a
  TypeError (\<open>None\<close>). The keys the code reads (\<^verbatim>\<open>type\<close>, \<^verbatim>\<open>error\<close>, \<^verbatim>\<open>details\<close>,
  \<^verbatim>\<open>token\<close>, \<^verbatim>\<open>chatbotBaseUrl\<close>) are no built-in properties of primitives or arrays, so
  there the read gives \<^verbatim>\<open>undefined\<close>; a File has its MIME type under \<^verbatim>\<open>type\<close>.
\<close>

fun get_prop :: "jsval \<Rightarrow> string \<Rightarrow> jsval option" where
  "get_prop JUndefined k = None"
| "get_prop JNull k = None"
| "get_prop (JObj kvs) k = Some (case map_of kvs k of None \<Rightarrow> JUndefined | Some v \<Rightarrow> v)"
| "get_prop (JFile f) k = Some (if k = ''type'' then JStr (file_type f) else JUndefined)"
| "get_prop v k = Some JUndefined"

section \<open>Strings\<close>

fun str_join :: "string \<Rightarrow> string list \<Rightarrow> string" where
  "str_join sep [] = []"
| "str_join sep [x] = x"
| "str_join sep (x # y # ys) = x @ sep @ str_join sep (y # ys)"

text \<open>\<^verbatim>\<open>s.split(c)\<close> for a one-character separator; the empty string gives one empty part.\<close>

fun str_split :: "char \<Rightarrow> string \<Rightarrow> string list" where
  "str_split sep [] = [[]]"
| "str_split sep (c # cs) =
     (if c = sep then [] # str_split sep cs
      else (case str_split sep cs of [] \<Rightarrow> [[c]] | p # ps \<Rightarrow> (c # p) # ps))"

fun starts_with :: "string \<Rightarrow> string \<Rightarrow> bool" where
  "starts_with s [] = True"
| "starts_with [] (p # ps) = False"
| "starts_with (c # cs) (p # ps) = (c = p \<and> starts_with cs ps)"

text \<open>\<^verbatim>\<open>s.includes(sub)\<close>.\<close>

fun str_includes :: "string \<Rightarrow> string \<Rightarrow> bool" where
  "str_includes [] sub = (sub = [])"
| "str_includes (c # cs) sub = (starts_with (c # cs) sub \<or> str_includes cs sub)"

text \<open>String conversion, as done by a template literal and by \<^verbatim>\<open>new Error(v)\<close>.\<close>

fun to_string :: "jsval \<Rightarrow> string" where
  "to_string JUndefined = ''undefined''"
| "to_string JNull = ''null''"
| "to_string (JBool b) = (if b then ''true'' else ''false'')"
| "to_string (JNum r) = r"
| "to_string (JStr s) = s"
| "to_string (JArr xs) =
     str_join '','' (map (\<lambda>x. if x = JNull \<or> x = JUndefined then [] else to_string x) xs)"
| "to_string (JObj kvs) = ''[object Object]''"
| "to_string (JFile f) = ''[object File]''"

section \<open>escapeHtml\<close>

text \<open>
  \<^verbatim>\<open>escapeHtml(text)\<close> assigns \<^verbatim>\<open>text\<close> to the \<^verbatim>\<open>textContent\<close> of a fresh \<^verbatim>\<open>div\<close> and
  reads its \<^verbatim>\<open>innerHTML\<close> back. The div then holds one text node, and the HTML
  serialisation of a text node replaces \<^verbatim>\<open>&\<close>, \<^verbatim>\<open><\<close>, \<^verbatim>\<open>>\<close> and the no-break space
  (code 160) by \<^verbatim>\<open>&amp;\<close>, \<^verbatim>\<open>&lt;\<close>, \<^verbatim>\<open>&gt;\<close> and \<^verbatim>\<open>&nbsp;\<close>, and nothing else.
\<close>

definition escape_char :: "char \<Rightarrow> string" where
  "escape_char c =
     (if c = CHR ''&'' then ''&amp;''
      else if c = CHR ''<'' then ''&lt;''
      else if c = CHR ''>'' then ''&gt;''
      else if c = CHR 0xA0 then ''&nbsp;''
      else [c])"

definition escapeHtml :: "string \<Rightarrow> string" where
  "escapeHtml t = concat (map escape_char t)"

text \<open>
  What a reader of the markup needs of an escaped text: no tag delimiter, and every
  ampersand opens one of the four character references.
\<close>

fun escaped_text :: "string \<Rightarrow> bool" where
  "escaped_text [] = True"
| "escaped_text (c # cs) =
     (if c = CHR ''<'' \<or> c = CHR ''>'' then False
      else if c = CHR ''&'' then
        (starts_with cs ''amp;'' \<or> starts_with cs ''lt;'' \<or> starts_with cs ''gt;''
           \<or> starts_with cs ''nbsp;'') \<and> escaped_text cs
      else escaped_text cs)"

text \<open>The inverse reading: what text a parser recovers from the four references.\<close>

fun unescapeHtml :: "string \<Rightarrow> string" where
  "unescapeHtml [] = []"
| "unescapeHtml (c # cs) =
     (if c = CHR ''&'' then
        (if starts_with cs ''amp;'' then CHR ''&'' # unescapeHtml (drop 4 cs)
         else if starts_with cs ''lt;'' then CHR ''<'' # unescapeHtml (drop 3 cs)
         else if starts_with cs ''gt;'' then CHR ''>'' # unescapeHtml (drop 3 cs)
         else if starts_with cs ''nbsp;'' then CHR 0xA0 # unescapeHtml (drop 5 cs)
         else c # unescapeHtml cs)
      else c # unescapeHtml cs)"

section \<open>Network and platform\<close>

text \<open>
  The outcome of one \<^verbatim>\<open>fetch\<close>: the promise rejects (with the error's message), or it
  gives a response with its \<^verbatim>\<open>ok\<close> flag and what \<^verbatim>\<open>response.json()\<close> will do: reject
  with a message on a malformed body (\<open>Inl\<close>) or give the parsed value (\<open>Inr\<close>).
\<close>

datatype fetch_outcome =
    NetworkError string
  | Response bool "string + jsval"

text \<open>
  Functions of the browser that the component calls and that are no code of this
  repository are parameters: the origin of \<^verbatim>\<open>new URL(u)\<close> (\<open>None\<close> when the
  constructor throws), \<^verbatim>\<open>encodeURIComponent\<close>, whether \<^verbatim>\<open>postMessage(msg, origin)\<close>
  returns (it throws on a value that cannot be cloned and on a malformed target origin),
  and the message of the TypeError of a property read on \<^verbatim>\<open>null\<close>.
\<close>

record platform =
  url_origin :: "string \<Rightarrow> string option"
  encodeURIComponent :: "string \<Rightarrow> string"
  can_post :: "jsval \<Rightarrow> string \<Rightarrow> bool"
  type_error_message :: "jsval \<Rightarrow> string \<Rightarrow> string"

record location =
  hostname :: string
  port :: string

section \<open>The component's state\<close>

record config =
  tenant :: string
  bot :: string
  theme :: string
  position :: string
  language :: string
  tokenApiUrl :: string
  chatbotUrl :: string

text \<open>The \<^verbatim>\<open>options\<close> argument of the command API; an absent property is \<open>JUndefined\<close>.\<close>

record options =
  opt_autoSend :: jsval
  opt_file :: jsval

record message =
  msg_text :: jsval
  msg_autoSend :: jsval
  msg_file :: jsval

record iframe_el =
  src :: string
  contentWindow :: bool

record panel =
  display :: string
  open_class :: bool

text \<open>
  The content of the \<^verbatim>\<open>.iframe-container\<close> element: markup assigned to its
  \<^verbatim>\<open>innerHTML\<close>, or the iframe as its only child.
\<close>

datatype container = Html string | Frame

datatype detail = Instance | Sent jsval options | Data jsval

type_synonym custom_event = "string \<times> detail"

text \<open>
  The fields of \<^verbatim>\<open>this\<close>, the three elements that \<^verbatim>\<open>render\<close> looks up (\<open>None\<close> when
  the lookup found nothing), and what the component has done to its surroundings: the
  messages posted to the frame's window with their target origin, the custom events
  dispatched on \<^verbatim>\<open>window\<close>, the FileReader reads under way and the timeouts of
  \<^verbatim>\<open>setQuestion\<close> not yet fired.
\<close>

record widget =
  config :: config
  token :: jsval
  loading :: bool
  error :: "string option"
  isOpen :: bool
  isMinimized :: bool
  iframe :: "iframe_el option"
  iframeReady :: bool
  pendingMessages :: "message list"
  chatbotOrigin :: string
  chatPanel :: "panel option"
  launcherButton :: "string option"
  iframeContainer :: "container option"
  posted :: "(jsval \<times> string) list"
  events :: "custom_event list"
  readers :: "message list"
  timers :: "(jsval \<times> options) list"

record message_event =
  origin :: string
  data :: jsval

section \<open>Markup of the panel\<close>

definition loading_html :: string where
  "loading_html = ''<div class=\"loading-state\">Loading chatbot...</div>''"

text \<open>The error block, as both \<^verbatim>\<open>getHTML\<close> and \<^verbatim>\<open>updateErrorState\<close> build it.\<close>

definition error_html :: "string \<Rightarrow> string" where
  "error_html e = ''<div class=\"error-state\">Error: '' @ escapeHtml e @ ''</div>''"

text \<open>
  The part of the template of \<^verbatim>\<open>getHTML\<close> inside the \<^verbatim>\<open>.iframe-container\<close> element.
  \<^verbatim>\<open>this.error\<close> is tested for truthiness: \<^verbatim>\<open>null\<close> and the empty string add nothing.
\<close>

definition getHTML_container :: "bool \<Rightarrow> string option \<Rightarrow> string" where
  "getHTML_container ld er =
     CHR 0x0A # replicate 14 CHR '' '' @ (if ld then loading_html else [])
     @ CHR 0x0A # replicate 14 CHR '' ''
     @ (case er of None \<Rightarrow> [] | Some e \<Rightarrow> if e \<noteq> [] then error_html e else [])
     @ CHR 0x0A # replicate 12 CHR '' ''"

text \<open>
  Assigning \<^verbatim>\<open>innerHTML\<close> of the container removes its children: an iframe that was
  inside leaves the document and its \<^verbatim>\<open>contentWindow\<close> becomes \<^verbatim>\<open>null\<close>.
\<close>

definition set_innerHTML :: "string \<Rightarrow> widget \<Rightarrow> widget" where
  "set_innerHTML h s =
     s\<lparr>iframeContainer := Some (Html h),
       iframe := map_option (\<lambda>f. f\<lparr>contentWindow := False\<rparr>) (iframe s)\<rparr>"

definition updateLoadingState :: "widget \<Rightarrow> widget" where
  "updateLoadingState s =
     (case iframeContainer s of None \<Rightarrow> s | Some c \<Rightarrow> set_innerHTML loading_html s)"

text \<open>\<^verbatim>\<open>escapeHtml(null)\<close> sets an empty text.\<close>

definition updateErrorState :: "widget \<Rightarrow> widget" where
  "updateErrorState s =
     (case iframeContainer s of
        None \<Rightarrow> s
      | Some c \<Rightarrow> set_innerHTML (error_html (case error s of None \<Rightarrow> [] | Some e \<Rightarrow> e)) s)"

definition dispatchEvent :: "custom_event \<Rightarrow> widget \<Rightarrow> widget" where
  "dispatchEvent e s = s\<lparr>events := events s @ [e]\<rparr>"

text \<open>The state after the constructor: the fields, then \<^verbatim>\<open>init\<close> with its \<^verbatim>\<open>render\<close>.\<close>

definition new_widget :: "config \<Rightarrow> widget" where
  "new_widget cfg =
     \<lparr>config = cfg, token = JNull, loading = True, error = None, isOpen = False,
      isMinimized = True, iframe = None, iframeReady = False, pendingMessages = [],
      chatbotOrigin = ''*'',
      chatPanel = Some \<lparr>display = ''none'', open_class = False\<rparr>,
      launcherButton = Some [],
      iframeContainer = Some (Html (getHTML_container True None)),
      posted = [], events = [], readers = [], timers = []\<rparr>"

section \<open>getChatbotUrl\<close>

text \<open>
  The last part of \<^verbatim>\<open>getChatbotUrl\<close>, "Fallback: Auto-detect from tenant", from the
  host name and port of \<^verbatim>\<open>window.location\<close>.
\<close>

definition autoDetectUrl :: "string \<Rightarrow> location \<Rightarrow> string" where
  "autoDetectUrl tn loc =
     (if str_includes (hostname loc) ''localhost'' \<or> str_includes (hostname loc) ''127.0.0.1''
      then
        (let p = (if port loc \<noteq> [] then port loc else ''3000'') in
         if hostname loc = ''localhost'' \<or> hostname loc = ''127.0.0.1''
         then ''http://localhost:'' @ p
         else ''http://'' @ tn @ ''.localhost:'' @ p)
      else
        (let parts = str_split CHR ''.'' (hostname loc) in
         if length parts \<ge> 2
         then ''https://'' @ tn @ ''.'' @ str_join ''.'' (drop (length parts - 2) parts)
         else ''https://'' @ tn @ ''.aventora.app''))"

text \<open>
  The \<^verbatim>\<open>try\<close> block of \<^verbatim>\<open>getChatbotUrl\<close>: the base URL of the server's configuration,
  or \<open>None\<close> when control leaves the block without a \<^verbatim>\<open>return\<close> (the fetch rejects,
  the response is not ok, the body is malformed, the parsed body is \<^verbatim>\<open>null\<close>, or its
  \<^verbatim>\<open>chatbotBaseUrl\<close> is falsy).
\<close>

definition serverConfigUrl :: "fetch_outcome \<Rightarrow> jsval option" where
  "serverConfigUrl r =
     (case r of
        NetworkError m \<Rightarrow> None
      | Response ok body \<Rightarrow>
          if ok then
            (case body of
               Inl m \<Rightarrow> None
             | Inr d \<Rightarrow>
                 (case get_prop d ''chatbotBaseUrl'' of
                    None \<Rightarrow> None
                  | Some u \<Rightarrow> if truthy u then Some u else None))
          else None)"

text \<open>
  \<^verbatim>\<open>getChatbotUrl\<close>, given the network as a function from the requested URL to the
  outcome of the fetch. The result is the URL and the list of the requests made.
\<close>

definition getChatbotUrl ::
  "config \<Rightarrow> (string \<Rightarrow> fetch_outcome) \<Rightarrow> location \<Rightarrow> jsval \<times> string list" where
  "getChatbotUrl cfg net loc =
     (if chatbotUrl cfg \<noteq> [] then (JStr (chatbotUrl cfg), [])
      else
        (case serverConfigUrl (net ''/api/config'') of
           Some u \<Rightarrow> (u, [''/api/config''])
         | None \<Rightarrow> (JStr (autoDetectUrl (tenant cfg) loc), [''/api/config''])))"

section \<open>The message bridge\<close>

text \<open>The four shapes that \<^verbatim>\<open>sendToIframe\<close> posts for one message, in its order.\<close>

definition shapes :: "message \<Rightarrow> jsval list" where
  "shapes m =
     [JObj [(''type'', JStr ''chatbot_message''), (''message'', msg_text m),
            (''autoSend'', msg_autoSend m), (''file'', msg_file m)],
      JObj [(''type'', JStr ''send_message''), (''text'', msg_text m),
            (''autoSend'', msg_autoSend m), (''file'', msg_file m)],
      JObj [(''type'', JStr ''set_question''), (''question'', msg_text m),
            (''autoSend'', msg_autoSend m), (''file'', msg_file m)],
      JObj [(''type'', JStr ''openChatbot''), (''question'', msg_text m),
            (''autoSend'', msg_autoSend m), (''file'', msg_file m)]]"

text \<open>
  \<^verbatim>\<open>messages.forEach(msg => contentWindow.postMessage(msg, origin))\<close> inside the
  \<^verbatim>\<open>try\<close>: a throwing \<^verbatim>\<open>postMessage\<close> ends the loop, what was posted before stays
  posted. The boolean tells whether the loop came to its end.
\<close>

fun post_each ::
  "platform \<Rightarrow> string \<Rightarrow> jsval list \<Rightarrow> (jsval \<times> string) list \<Rightarrow> (jsval \<times> string) list \<times> bool"
where
  "post_each pf org [] lg = (lg, True)"
| "post_each pf org (m # ms) lg =
     (if can_post pf m org then post_each pf org ms (lg @ [(m, org)]) else (lg, False))"

definition enqueue :: "message \<Rightarrow> widget \<Rightarrow> widget" where
  "enqueue m s = s\<lparr>pendingMessages := pendingMessages s @ [m]\<rparr>"

definition sendToIframe :: "platform \<Rightarrow> message \<Rightarrow> widget \<Rightarrow> bool \<times> widget" where
  "sendToIframe pf m s =
     (case iframe s of
        None \<Rightarrow> (False, enqueue m s)
      | Some f \<Rightarrow>
          if \<not> contentWindow f then (False, enqueue m s)
          else
            (let r = post_each pf (chatbotOrigin s) (shapes m) (posted s)
             in (snd r, s\<lparr>posted := fst r\<rparr>)))"

text \<open>
  \<^verbatim>\<open>this.pendingMessages.forEach(msg => this.sendToIframe(msg))\<close>: \<^verbatim>\<open>forEach\<close> visits
  the elements that the array had when the loop began, also when a call appends to the
  same array.
\<close>

fun flush :: "platform \<Rightarrow> message list \<Rightarrow> widget \<Rightarrow> widget" where
  "flush pf [] s = s"
| "flush pf (m # ms) s = flush pf ms (snd (sendToIframe pf m s))"

definition processPendingMessages :: "platform \<Rightarrow> widget \<Rightarrow> widget" where
  "processPendingMessages pf s =
     (if length (pendingMessages s) > 0 \<and> iframeReady s
      then (flush pf (pendingMessages s) s)\<lparr>pendingMessages := []\<rparr>
      else s)"

definition handleIframeMessage :: "platform \<Rightarrow> jsval \<Rightarrow> widget \<Rightarrow> widget" where
  "handleIframeMessage pf d s =
     dispatchEvent (''aventora:message'', Data d)
       (if get_prop d ''type'' = Some (JStr ''chatbot_ready'')
           \<or> get_prop d ''type'' = Some (JStr ''flutter_ready'')
        then dispatchEvent (''aventora:ready'', Instance)
               (processPendingMessages pf (s\<lparr>iframeReady := True\<rparr>))
        else s)"

text \<open>The listener that \<^verbatim>\<open>setupMessageListener\<close> installs on \<^verbatim>\<open>window\<close>.\<close>

definition messageHandler :: "platform \<Rightarrow> message_event \<Rightarrow> widget \<Rightarrow> widget" where
  "messageHandler pf ev s =
     (if chatbotOrigin s \<noteq> ''*'' \<and> origin ev \<noteq> chatbotOrigin s then s
      else if truthy (data ev) \<and> typeof (data ev) = ''object''
           then handleIframeMessage pf (data ev) s
           else s)"

text \<open>The two handlers that \<^verbatim>\<open>createIframe\<close> puts on the iframe.\<close>

definition iframe_onload :: "platform \<Rightarrow> widget \<Rightarrow> widget" where
  "iframe_onload pf s =
     dispatchEvent (''aventora:iframe-ready'', Instance)
       (processPendingMessages pf (s\<lparr>iframeReady := True\<rparr>))"

definition iframe_onerror :: "widget \<Rightarrow> widget" where
  "iframe_onerror s = updateErrorState (s\<lparr>error := Some ''Failed to load chatbot''\<rparr>)"

section \<open>fetchToken and createIframe\<close>

definition fetchToken_begin :: "widget \<Rightarrow> widget" where
  "fetchToken_begin s = updateLoadingState (s\<lparr>loading := True, error := None\<rparr>)"

text \<open>The \<^verbatim>\<open>catch\<close> block of \<^verbatim>\<open>fetchToken\<close>, given \<^verbatim>\<open>err.message\<close>.\<close>

definition fetchToken_catch :: "string \<Rightarrow> widget \<Rightarrow> widget" where
  "fetchToken_catch msg s = updateErrorState (s\<lparr>error := Some msg, loading := False\<rparr>)"

text \<open>
  The message of the error that leaves the \<^verbatim>\<open>if (!response.ok)\<close> block: that of the
  \<^verbatim>\<open>Error\<close> thrown there, or that of the TypeError when the parsed body is \<^verbatim>\<open>null\<close>.
\<close>

definition tokenErrorMessage :: "platform \<Rightarrow> string + jsval \<Rightarrow> string" where
  "tokenErrorMessage pf body =
     (let errorData =
        (case body of
           Inl m \<Rightarrow> JObj [(''error'', JStr ''Failed to generate token'')]
         | Inr d \<Rightarrow> d)
      in case get_prop errorData ''error'' of
           None \<Rightarrow> type_error_message pf errorData ''error''
         | Some e \<Rightarrow>
             if truthy e then to_string e
             else
               (case get_prop errorData ''details'' of
                  None \<Rightarrow> type_error_message pf errorData ''details''
                | Some d \<Rightarrow>
                    if truthy d then to_string d else ''Failed to generate chatbot token''))"

text \<open>
  \<^verbatim>\<open>createIframe\<close>. It reads the state before and after its one \<^verbatim>\<open>await\<close> and writes
  it only after; the model runs it in one step, on the state at the time it resumes.
\<close>

definition createIframe ::
  "platform \<Rightarrow> (string \<Rightarrow> fetch_outcome) \<Rightarrow> location \<Rightarrow> widget \<Rightarrow> widget" where
  "createIframe pf net loc s =
     (if \<not> truthy (token s) then s
      else
        (let u = to_string (fst (getChatbotUrl (config s) net loc));
             iframeUrl = u @ ''/autoconnect?token=''
                @ encodeURIComponent pf (to_string (token s))
                @ ''&lang='' @ encodeURIComponent pf (language (config s));
             org = (case url_origin pf u of None \<Rightarrow> ''*'' | Some g \<Rightarrow> g)
         in case iframeContainer s of
              None \<Rightarrow>
                s\<lparr>chatbotOrigin := org,
                  iframe := Some \<lparr>src = iframeUrl, contentWindow = False\<rparr>\<rparr>
            | Some c \<Rightarrow>
                s\<lparr>chatbotOrigin := org,
                  iframe := Some \<lparr>src = iframeUrl, contentWindow = True\<rparr>,
                  iframeContainer := Some Frame\<rparr>))"

text \<open>\<^verbatim>\<open>fetchToken\<close> from the point where its \<^verbatim>\<open>fetch\<close> has settled with outcome \<open>r\<close>.\<close>

definition fetchToken_resume ::
  "platform \<Rightarrow> (string \<Rightarrow> fetch_outcome) \<Rightarrow> location \<Rightarrow> fetch_outcome \<Rightarrow> widget \<Rightarrow> widget"
where
  "fetchToken_resume pf net loc r s =
     (case r of
        NetworkError m \<Rightarrow> fetchToken_catch m s
      | Response ok body \<Rightarrow>
          if \<not> ok then fetchToken_catch (tokenErrorMessage pf body) s
          else
            (case body of
               Inl m \<Rightarrow> fetchToken_catch m s
             | Inr d \<Rightarrow>
                 (case get_prop d ''token'' of
                    None \<Rightarrow> fetchToken_catch (type_error_message pf d ''token'') s
                  | Some t \<Rightarrow> createIframe pf net loc (s\<lparr>token := t, loading := False\<rparr>))))"

definition fetchToken ::
  "platform \<Rightarrow> (string \<Rightarrow> fetch_outcome) \<Rightarrow> location \<Rightarrow> widget \<Rightarrow> widget" where
  "fetchToken pf net loc s =
     fetchToken_resume pf net loc (net (tokenApiUrl (config s))) (fetchToken_begin s)"

section \<open>The public command API\<close>

definition open_widget :: "widget \<Rightarrow> widget" where
  "open_widget s =
     (case chatPanel s of
        None \<Rightarrow> s
      | Some p \<Rightarrow>
          dispatchEvent (''aventora:opened'', Instance)
            (s\<lparr>chatPanel := Some (p\<lparr>display := ''block'', open_class := True\<rparr>),
               isOpen := True, isMinimized := False,
               launcherButton := map_option (\<lambda>d. ''none'') (launcherButton s)\<rparr>))"

definition close_widget :: "widget \<Rightarrow> widget" where
  "close_widget s =
     (case chatPanel s of
        None \<Rightarrow> s
      | Some p \<Rightarrow>
          dispatchEvent (''aventora:closed'', Instance)
            (s\<lparr>chatPanel := Some (p\<lparr>display := ''none'', open_class := False\<rparr>),
               isOpen := False, isMinimized := True,
               launcherButton := map_option (\<lambda>d. ''flex'') (launcherButton s)\<rparr>))"

text \<open>The message object that \<^verbatim>\<open>sendMessage\<close> builds from its arguments.\<close>

definition make_message :: "jsval \<Rightarrow> options \<Rightarrow> message" where
  "make_message txt opts =
     \<lparr>msg_text = txt,
      msg_autoSend = or_else (opt_autoSend opts) (JBool False),
      msg_file = or_else (opt_file opts) JNull\<rparr>"

text \<open>
  \<^verbatim>\<open>sendMessage\<close> returns \<^verbatim>\<open>undefined\<close> on both paths. With a File it starts a
  FileReader and returns; the read is then under way.
\<close>

definition sendMessage :: "platform \<Rightarrow> jsval \<Rightarrow> options \<Rightarrow> widget \<Rightarrow> jsval \<times> widget" where
  "sendMessage pf txt opts s =
     (let m = make_message txt opts
      in if is_File (msg_file m) then (JUndefined, s\<lparr>readers := readers s @ [m]\<rparr>)
         else
           (JUndefined,
            dispatchEvent (''aventora:message-sent'', Sent txt opts)
              (snd (sendToIframe pf m s))))"

text \<open>
  \<^verbatim>\<open>reader.onload\<close> of the read number \<open>k\<close> under way, with the data URL \<open>res\<close> that the
  FileReader produced.
\<close>

definition reader_onload :: "platform \<Rightarrow> nat \<Rightarrow> string \<Rightarrow> widget \<Rightarrow> widget" where
  "reader_onload pf k res s =
     (if k < length (readers s)
      then snd (sendToIframe pf ((readers s ! k)\<lparr>msg_file := JStr res\<rparr>)
                  (s\<lparr>readers := take k (readers s) @ drop (Suc k) (readers s)\<rparr>))
      else s)"



section \<open>sendMessage of widget/widget-ui.js\<close>







section \<open>Notions used by the properties\<close>

text \<open>
  \<^verbatim>\<open>sendToIframe\<close> posts when \<^verbatim>\<open>this.iframe\<close> is set and has a \<^verbatim>\<open>contentWindow\<close>, and
  queues otherwise.
\<close>

definition has_window :: "widget \<Rightarrow> bool" where
  "has_window s = (case iframe s of None \<Rightarrow> False | Some f \<Rightarrow> contentWindow f)"

text \<open>
  Every command of a queue delivered once and in the queue's order: the four shapes of
  the first command, then those of the second, and so on, all to one target origin.
\<close>

definition deliveries :: "string \<Rightarrow> message list \<Rightarrow> (jsval \<times> string) list" where
  "deliveries org ms = concat (map (\<lambda>m. map (\<lambda>w. (w, org)) (shapes m)) ms)"

text \<open>Whether \<^verbatim>\<open>postMessage\<close> accepts every shape of every command of a queue.\<close>

definition postable :: "platform \<Rightarrow> string \<Rightarrow> message list \<Rightarrow> bool" where
  "postable pf org ms = list_all (\<lambda>m. list_all (\<lambda>w. can_post pf w org) (shapes m)) ms"


text \<open>A window message whose \<^verbatim>\<open>type\<close> is one of the two ready signals.\<close>

definition is_ready_signal :: "jsval \<Rightarrow> bool" where
  "is_ready_signal d =
     (truthy d \<and> typeof d = ''object''
      \<and> (get_prop d ''type'' = Some (JStr ''chatbot_ready'')
           \<or> get_prop d ''type'' = Some (JStr ''flutter_ready'')))"

text \<open>
  The fetch of \<^verbatim>\<open>/api/config\<close> failed: it rejected, the response was not ok, the body was
  malformed, or the body gave no usable \<^verbatim>\<open>chatbotBaseUrl\<close>.
\<close>

fun config_fetch_failed :: "fetch_outcome \<Rightarrow> bool" where
  "config_fetch_failed (NetworkError m) = True"
| "config_fetch_failed (Response ok (Inl m)) = True"
| "config_fetch_failed (Response ok (Inr d)) =
     (\<not> ok \<or> (case get_prop d ''chatbotBaseUrl'' of None \<Rightarrow> True | Some u \<Rightarrow> \<not> truthy u))"

section \<open>Example inputs\<close>

definition demo_config :: config where
  "demo_config =
     \<lparr>tenant = ''demo'', bot = [], theme = ''auto'', position = ''bottom-right'',
      language = ''en'', tokenApiUrl = ''/api/chatbot-token'', chatbotUrl = []\<rparr>"

text \<open>
  A browser, as far as the examples go: the base URLs in them are origins already, the
  token and the language need no escaping, and every command can be cloned.
\<close>

definition demo_platform :: platform where
  "demo_platform =
     \<lparr>url_origin =
        (\<lambda>u. if starts_with u ''https://'' \<or> starts_with u ''http://'' then Some u else None),
      encodeURIComponent = (\<lambda>x. x),
      can_post = (\<lambda>m org. True),
      type_error_message = (\<lambda>v k. ''Cannot read properties of null'')\<rparr>"

definition net_ok :: "string \<Rightarrow> fetch_outcome" where
  "net_ok u =
     (if u = ''/api/chatbot-token''
      then Response True (Inr (JObj [(''token'', JStr ''t1''),
                                     (''expires_at'', JStr ''2025-01-01T00:00:00Z'')]))
      else if u = ''/api/config''
      then Response True (Inr (JObj [(''chatbotBaseUrl'', JStr ''https://demo.aventora.app''),
                                     (''apiBaseUrl'', JNull)]))
      else Response False (Inl ''Unexpected token''))"

definition net_500 :: "string \<Rightarrow> fetch_outcome" where
  "net_500 u = Response False (Inr (JObj [(''error'', JStr ''bad key'')]))"

definition net_down :: "string \<Rightarrow> fetch_outcome" where
  "net_down u = NetworkError ''Failed to fetch''"

definition demo_location :: location where
  "demo_location = \<lparr>hostname = ''www.example.com'', port = []\<rparr>"

definition no_options :: options where
  "no_options = \<lparr>opt_autoSend = JUndefined, opt_file = JUndefined\<rparr>"

definition demo_file :: file_obj where
  "demo_file = File ''a.txt'' ''text/plain'' ''abc''"

definition file_options :: options where
  "file_options = \<lparr>opt_autoSend = JBool True, opt_file = JFile demo_file\<rparr>"

definition hi_message :: message where
  "hi_message = \<lparr>msg_text = JStr ''hi'', msg_autoSend = JBool False, msg_file = JNull\<rparr>"

definition ready_event :: message_event where
  "ready_event =
     \<lparr>origin = ''https://other.example'', data = JObj [(''type'', JStr ''chatbot_ready'')]\<rparr>"

definition remote_ready_event :: message_event where
  "remote_ready_event =
     \<lparr>origin = ''https://demo.aventora.app'', data = JObj [(''type'', JStr ''flutter_ready'')]\<rparr>"

text \<open>The component after its token fetch succeeded and the iframe was put in the panel.\<close>

definition mounted_widget :: widget where
  "mounted_widget = fetchToken demo_platform net_ok demo_location (new_widget demo_config)"

text \<open>The component after its token fetch got HTTP 500 with \<^verbatim>\<open>{"error":"bad key"}\<close>.\<close>

definition failed_widget :: widget where
  "failed_widget = fetchToken demo_platform net_500 demo_location (new_widget demo_config)"

text \<open>
  A run in which a ready message reaches the listener while the token fetch is still
  under way: \<^verbatim>\<open>connectedCallback\<close> starts the fetch, the page calls
  \<^verbatim>\<open>sendMessage("hi")\<close>, a window posts \<^verbatim>\<open>{type: "chatbot_ready"}\<close>, the fetch settles and
  the iframe is created, the iframe loads.
\<close>

definition early_ready_run :: widget where
  "early_ready_run =
     iframe_onload demo_platform
       (fetchToken_resume demo_platform net_ok demo_location (net_ok ''/api/chatbot-token'')
          (messageHandler demo_platform ready_event
             (snd (sendMessage demo_platform (JStr ''hi'') no_options
                (fetchToken_begin (new_widget demo_config))))))"

text \<open>
  A run in which both ready signals occur, the ready message first: two commands are
  queued while the token fetch is under way, a frame of the tenant's origin (that of
  another instance on the page) posts \<^verbatim>\<open>{type: "flutter_ready"}\<close>, the fetch settles and
  the iframe is created, the iframe loads.
\<close>

definition bye_message :: message where
  "bye_message = \<lparr>msg_text = JStr ''bye'', msg_autoSend = JBool True, msg_file = JNull\<rparr>"

definition two_queued :: widget where
  "two_queued =
     snd (sendMessage demo_platform (JStr ''bye'')
            \<lparr>opt_autoSend = JBool True, opt_file = JUndefined\<rparr>
            (snd (sendMessage demo_platform (JStr ''hi'') no_options
                    (fetchToken_begin (new_widget demo_config)))))"

definition both_signals_run :: widget where
  "both_signals_run =
     iframe_onload demo_platform
       (fetchToken_resume demo_platform net_ok demo_location (net_ok ''/api/chatbot-token'')
          (messageHandler demo_platform remote_ready_event two_queued))"

text \<open>The same run without the early ready message.\<close>

definition plain_run :: widget where
  "plain_run =
     iframe_onload demo_platform
       (fetchToken_resume demo_platform net_ok demo_location (net_ok ''/api/chatbot-token'')
          (snd (sendMessage demo_platform (JStr ''hi'') no_options
             (fetchToken_begin (new_widget demo_config)))))"

section \<open>Facts about the bridge\<close>

lemma post_each_all:
  "list_all (\<lambda>w. can_post pf w org) ws \<Longrightarrow>
   post_each pf org ws lg = (lg @ map (\<lambda>w. (w, org)) ws, True)"
  by (induction ws arbitrary: lg) simp_all

lemma post_each_prefix:
  "\<exists>k. fst (post_each pf org ws lg) = lg @ map (\<lambda>w. (w, org)) (take k ws)"
proof (induction ws arbitrary: lg)
  case Nil
  then show ?case by simp
next
  case (Cons w ws)
  show ?case
  proof (cases "can_post pf w org")
    case True
    from Cons [of "lg @ [(w, org)]"] obtain k where
      "fst (post_each pf org ws (lg @ [(w, org)]))
         = (lg @ [(w, org)]) @ map (\<lambda>w. (w, org)) (take k ws)"
      by blast
    with True have
      "fst (post_each pf org (w # ws) lg) = lg @ map (\<lambda>w. (w, org)) (take (Suc k) (w # ws))"
      by simp
    then show ?thesis by blast
  next
    case False
    then have
      "fst (post_each pf org (w # ws) lg) = lg @ map (\<lambda>w. (w, org)) (take 0 (w # ws))"
      by simp
    then show ?thesis by blast
  qed
qed

lemma sendToIframe_no_window:
  "\<not> has_window s \<Longrightarrow> sendToIframe pf m s = (False, enqueue m s)"
  by (auto simp add: sendToIframe_def has_window_def split: option.splits)

lemma sendToIframe_window:
  "has_window s \<Longrightarrow> list_all (\<lambda>w. can_post pf w (chatbotOrigin s)) (shapes m) \<Longrightarrow>
   sendToIframe pf m s
     = (True, s\<lparr>posted := posted s @ map (\<lambda>w. (w, chatbotOrigin s)) (shapes m)\<rparr>)"
  by (auto simp add: sendToIframe_def has_window_def post_each_all split: option.splits)

lemma sendToIframe_cases:
  "(\<not> has_window s \<and> snd (sendToIframe pf m s) = enqueue m s)
   \<or> (\<exists>k. has_window s
         \<and> snd (sendToIframe pf m s)
             = s\<lparr>posted := posted s @ map (\<lambda>w. (w, chatbotOrigin s)) (take k (shapes m))\<rparr>)"
proof (cases "has_window s")
  case False
  then show ?thesis by (simp add: sendToIframe_no_window)
next
  case True
  obtain k where
    "fst (post_each pf (chatbotOrigin s) (shapes m) (posted s))
       = posted s @ map (\<lambda>w. (w, chatbotOrigin s)) (take k (shapes m))"
    using post_each_prefix by blast
  with True show ?thesis
    by (auto simp add: sendToIframe_def has_window_def Let_def split: option.splits)
qed

lemma flush_no_window:
  "\<not> has_window s \<Longrightarrow> flush pf ms s = s\<lparr>pendingMessages := pendingMessages s @ ms\<rparr>"
proof (induction ms arbitrary: s)
  case Nil
  then show ?case by simp
next
  case (Cons m ms)
  have "\<not> has_window (enqueue m s)"
    using Cons.prems by (simp add: has_window_def enqueue_def)
  from Cons.IH [OF this] Cons.prems show ?case
    by (simp add: sendToIframe_no_window enqueue_def)
qed

lemma flush_window:
  "has_window s \<Longrightarrow> postable pf (chatbotOrigin s) ms \<Longrightarrow>
   flush pf ms s = s\<lparr>posted := posted s @ deliveries (chatbotOrigin s) ms\<rparr>"
proof (induction ms arbitrary: s)
  case Nil
  then show ?case by (simp add: deliveries_def)
next
  case (Cons m ms)
  let ?s1 = "s\<lparr>posted := posted s @ map (\<lambda>w. (w, chatbotOrigin s)) (shapes m)\<rparr>"
  have w1: "has_window ?s1" using Cons.prems(1) by (simp add: has_window_def)
  have c1: "postable pf (chatbotOrigin ?s1) ms"
    using Cons.prems(2) by (simp add: postable_def)
  have "flush pf (m # ms) s = flush pf ms ?s1"
    using Cons.prems by (simp add: sendToIframe_window postable_def)
  also have "\<dots> = ?s1\<lparr>posted := posted ?s1 @ deliveries (chatbotOrigin ?s1) ms\<rparr>"
    by (rule Cons.IH [OF w1 c1])
  finally show ?case by (simp add: deliveries_def)
qed

text \<open>A flush with the frame's window at hand posts the whole queue in order and empties it.\<close>

lemma processPendingMessages_window:
  assumes "has_window s" and "iframeReady s" and "postable pf (chatbotOrigin s) (pendingMessages s)"
  shows "processPendingMessages pf s
           = s\<lparr>posted := posted s @ deliveries (chatbotOrigin s) (pendingMessages s),
                pendingMessages := []\<rparr>"
proof (cases "pendingMessages s")
  case Nil
  then show ?thesis by (simp add: processPendingMessages_def deliveries_def)
next
  case (Cons m ms)
  then show ?thesis
    using assms flush_window [of s pf "pendingMessages s"]
    by (simp add: processPendingMessages_def)
qed

text \<open>A flush without the window puts every command back and then drops the queue.\<close>

lemma processPendingMessages_no_window:
  assumes "\<not> has_window s" and "iframeReady s"
  shows "processPendingMessages pf s = s\<lparr>pendingMessages := []\<rparr>"
proof (cases "pendingMessages s")
  case Nil
  then show ?thesis by (simp add: processPendingMessages_def)
next
  case (Cons m ms)
  then show ?thesis
    using assms flush_no_window [of s pf "pendingMessages s"]
    by (simp add: processPendingMessages_def)
qed

lemma processPendingMessages_empty:
  "pendingMessages s = [] \<Longrightarrow> processPendingMessages pf s = s"
  by (simp add: processPendingMessages_def)

lemma processPendingMessages_ready_pending:
  "iframeReady s \<Longrightarrow> pendingMessages (processPendingMessages pf s) = []"
  by (simp add: processPendingMessages_def)

lemma ready_flush_window:
  assumes "has_window s" and "postable pf (chatbotOrigin s) (pendingMessages s)"
  shows "processPendingMessages pf (s\<lparr>iframeReady := True\<rparr>)
           = s\<lparr>iframeReady := True,
                posted := posted s @ deliveries (chatbotOrigin s) (pendingMessages s),
                pendingMessages := []\<rparr>"
proof -
  have "has_window (s\<lparr>iframeReady := True\<rparr>)"
    using assms(1) by (simp add: has_window_def)
  moreover have "postable pf (chatbotOrigin (s\<lparr>iframeReady := True\<rparr>))
                   (pendingMessages (s\<lparr>iframeReady := True\<rparr>))"
    using assms(2) by simp
  ultimately show ?thesis
    using processPendingMessages_window [of "s\<lparr>iframeReady := True\<rparr>" pf] by simp
qed

lemma messageHandler_ready:
  assumes "is_ready_signal (data ev)"
    and "chatbotOrigin s = ''*'' \<or> origin ev = chatbotOrigin s"
  shows "messageHandler pf ev s
           = dispatchEvent (''aventora:message'', Data (data ev))
               (dispatchEvent (''aventora:ready'', Instance)
                  (processPendingMessages pf (s\<lparr>iframeReady := True\<rparr>)))"
  using assms by (auto simp add: messageHandler_def handleIframeMessage_def is_ready_signal_def)

text \<open>
  A ready message that is accepted while the frame has no window empties the queue and
  posts nothing.
\<close>

lemma ready_without_window_drops_queue:
  assumes "\<not> has_window s" and "is_ready_signal (data ev)"
    and "chatbotOrigin s = ''*'' \<or> origin ev = chatbotOrigin s"
  shows "pendingMessages (messageHandler pf ev s) = []"
    and "posted (messageHandler pf ev s) = posted s"
proof -
  have nw: "\<not> has_window (s\<lparr>iframeReady := True\<rparr>)"
    using assms(1) by (simp add: has_window_def)
  have "processPendingMessages pf (s\<lparr>iframeReady := True\<rparr>)
          = s\<lparr>iframeReady := True, pendingMessages := []\<rparr>"
    using processPendingMessages_no_window [OF nw, of pf] by simp
  then show "pendingMessages (messageHandler pf ev s) = []"
    and "posted (messageHandler pf ev s) = posted s"
    by (simp_all add: messageHandler_ready [OF assms(2,3)] dispatchEvent_def)
qed

lemma onload_posted:
  "posted (iframe_onload pf s) = posted (processPendingMessages pf (s\<lparr>iframeReady := True\<rparr>))"
  "pendingMessages (iframe_onload pf s) = []"
  by (simp_all add: iframe_onload_def dispatchEvent_def processPendingMessages_def)

text \<open>After either ready signal the queue is empty, whatever the state was.\<close>

lemma ready_signal_empties_queue:
  assumes "is_ready_signal (data ev)"
    and "chatbotOrigin s = ''*'' \<or> origin ev = chatbotOrigin s"
  shows "pendingMessages (messageHandler pf ev s) = []"
  using assms
  by (simp add: messageHandler_ready dispatchEvent_def processPendingMessages_def)

text \<open>With an empty queue either ready signal posts nothing.\<close>

lemma ready_signal_on_empty_queue:
  assumes "pendingMessages s = []"
  shows "posted (iframe_onload pf s) = posted s"
    and "posted (messageHandler pf ev s) = posted s"
  using assms
  by (simp_all add: iframe_onload_def messageHandler_def handleIframeMessage_def
      dispatchEvent_def processPendingMessages_def)

lemma chatbotOrigin_onload [simp]: "chatbotOrigin (iframe_onload pf s) = chatbotOrigin s"
proof -
  have "chatbotOrigin (flush pf ms t) = chatbotOrigin t" for ms t
  proof (induction ms arbitrary: t)
    case Nil
    then show ?case by simp
  next
    case (Cons m ms)
    have "chatbotOrigin (snd (sendToIframe pf m t)) = chatbotOrigin t"
      using sendToIframe_cases [of t pf m] by (auto simp add: enqueue_def)
    with Cons show ?case by simp
  qed
  then show ?thesis
    by (simp add: iframe_onload_def dispatchEvent_def processPendingMessages_def)
qed


lemma shapes_file:
  "w \<in> set (shapes m) \<Longrightarrow> get_prop w ''file'' = Some (msg_file m)"
  by (auto simp add: shapes_def)

lemma sendToIframe_new_posts:
  "p \<in> set (drop (length (posted s)) (posted (snd (sendToIframe pf m s)))) \<Longrightarrow>
   fst p \<in> set (shapes m)"
proof -
  assume p: "p \<in> set (drop (length (posted s)) (posted (snd (sendToIframe pf m s))))"
  from sendToIframe_cases [of s pf m] show ?thesis
  proof (elim disjE conjE exE)
    assume "snd (sendToIframe pf m s) = enqueue m s"
    with p show ?thesis by (simp add: enqueue_def)
  next
    fix k
    assume "snd (sendToIframe pf m s)
              = s\<lparr>posted := posted s @ map (\<lambda>w. (w, chatbotOrigin s)) (take k (shapes m))\<rparr>"
    with p have "fst p \<in> set (take k (shapes m))" by auto
    then show ?thesis by (rule in_set_takeD)
  qed
qed

lemma sendToIframe_new_pending:
  "q \<in> set (drop (length (pendingMessages s)) (pendingMessages (snd (sendToIframe pf m s)))) \<Longrightarrow>
   q = m"
  using sendToIframe_cases [of s pf m]
  by (auto simp add: enqueue_def)

lemma make_message_is_File:
  "is_File (msg_file (make_message tx opts)) = is_File (opt_file opts)"
  by (cases "opt_file opts") (simp_all add: make_message_def or_else_def)

lemma sendToIframe_events: "events (snd (sendToIframe pf m s)) = events s"
  using sendToIframe_cases [of s pf m] by (auto simp add: enqueue_def)

lemma mounted_widget_eval:
  "mounted_widget =
     \<lparr>config = demo_config, token = JStr ''t1'', loading = False, error = None,
      isOpen = False, isMinimized = True,
      iframe = Some \<lparr>src = ''https://demo.aventora.app/autoconnect?token=t1&lang=en'',
                     contentWindow = True\<rparr>,
      iframeReady = False, pendingMessages = [],
      chatbotOrigin = ''https://demo.aventora.app'',
      chatPanel = Some \<lparr>display = ''none'', open_class = False\<rparr>,
      launcherButton = Some [], iframeContainer = Some Frame,
      posted = [], events = [], readers = [], timers = []\<rparr>"
  by code_simp

lemma failed_widget_eval:
  "failed_widget =
     \<lparr>config = demo_config, token = JNull, loading = False, error = Some ''bad key'',
      isOpen = False, isMinimized = True, iframe = None,
      iframeReady = False, pendingMessages = [],
      chatbotOrigin = ''*'',
      chatPanel = Some \<lparr>display = ''none'', open_class = False\<rparr>,
      launcherButton = Some [],
      iframeContainer = Some (Html ''<div class=\"error-state\">Error: bad key</div>''),
      posted = [], events = [], readers = [], timers = []\<rparr>"
  by code_simp

section \<open>C1: queued commands and the ready transition\<close>

text \<open>
  Claim C1: commands issued while the frame has no content window are queued, not dropped,
  and after the bridge becomes ready they are posted once, in order, and the queue is
  empty.

  The lemmas \<open>flush_no_window\<close> and \<open>processPendingMessages_window\<close> above are the two
  halves that hold: without a window every \<^verbatim>\<open>sendToIframe\<close> appends to the queue, and a
  flush with the window posts the queue in order and empties it. But
  \<^verbatim>\<open>processPendingMessages\<close> tests \<^verbatim>\<open>iframeReady\<close> only, while \<^verbatim>\<open>sendToIframe\<close> tests
  the window. A ready message that the listener accepts before the iframe exists (the
  origin is still \<^verbatim>\<open>'*'\<close> then) runs the flush without a window: every command is
  pushed back on the array under iteration, and the array is then replaced by an empty
  one (\<open>processPendingMessages_no_window\<close>, \<open>ready_without_window_drops_queue\<close>).

  The theorem evaluates such a run: the command \<^verbatim>\<open>hi\<close> is queued, and after the iframe
  has loaded nothing was posted and the queue is empty; the same run without the early
  message delivers the four shapes.
\<close>

theorem C1_early_ready_signal_loses_command:
  "pendingMessages (snd (sendMessage demo_platform (JStr ''hi'') no_options
                      (fetchToken_begin (new_widget demo_config)))) = [hi_message]
   \<and> has_window early_ready_run \<and> iframeReady early_ready_run
   \<and> posted early_ready_run = [] \<and> pendingMessages early_ready_run = []
   \<and> posted plain_run = deliveries ''https://demo.aventora.app'' [hi_message]"
  by code_simp

section \<open>C2: the second ready signal\<close>

text \<open>
  What holds of the two ready signals, for a ready message that passes the origin check
  of the listener: in both orders the second signal posts nothing and leaves the queue
  empty; and when the frame has its window and \<^verbatim>\<open>postMessage\<close> accepts the queued
  commands, the first signal posts \<open>deliveries\<close> of the queue, every command once and in
  the queue's order.
\<close>

lemma second_ready_signal_is_noop:
  assumes rdy: "is_ready_signal (data ev)"
    and org: "chatbotOrigin s = ''*'' \<or> origin ev = chatbotOrigin s"
  shows "posted (messageHandler pf ev (iframe_onload pf s)) = posted (iframe_onload pf s)
       \<and> pendingMessages (messageHandler pf ev (iframe_onload pf s)) = []
       \<and> posted (iframe_onload pf (messageHandler pf ev s)) = posted (messageHandler pf ev s)
       \<and> pendingMessages (iframe_onload pf (messageHandler pf ev s)) = []
       \<and> (has_window s \<and> postable pf (chatbotOrigin s) (pendingMessages s) \<longrightarrow>
            posted (iframe_onload pf s)
              = posted s @ deliveries (chatbotOrigin s) (pendingMessages s)
            \<and> posted (messageHandler pf ev s)
              = posted s @ deliveries (chatbotOrigin s) (pendingMessages s))"
proof -
  have b: "posted (messageHandler pf ev (iframe_onload pf s)) = posted (iframe_onload pf s)"
    by (rule ready_signal_on_empty_queue(2)) (rule onload_posted(2))
  have org': "chatbotOrigin (iframe_onload pf s) = ''*''
                \<or> origin ev = chatbotOrigin (iframe_onload pf s)"
    using org by simp
  have c: "pendingMessages (messageHandler pf ev (iframe_onload pf s)) = []"
    by (rule ready_signal_empties_queue [OF rdy org'])
  have e: "posted (iframe_onload pf (messageHandler pf ev s)) = posted (messageHandler pf ev s)"
    by (rule ready_signal_on_empty_queue(1)) (rule ready_signal_empties_queue [OF rdy org])
  have f: "pendingMessages (iframe_onload pf (messageHandler pf ev s)) = []"
    by (rule onload_posted(2))
  have g: "posted (iframe_onload pf s)
              = posted s @ deliveries (chatbotOrigin s) (pendingMessages s)
            \<and> posted (messageHandler pf ev s)
              = posted s @ deliveries (chatbotOrigin s) (pendingMessages s)"
    if win: "has_window s" and post: "postable pf (chatbotOrigin s) (pendingMessages s)"
    using ready_flush_window [OF win post]
    by (simp add: onload_posted(1) messageHandler_ready [OF rdy org] dispatchEvent_def)
  from b c e f g show ?thesis by blast
qed

text \<open>
  Claim C2: in every run in which both ready signals occur, the iframe's load event and a
  ready message, in either order, every queued command is delivered exactly once, and the
  second signal finds the queue empty and posts nothing.

  The theorem evaluates a run in which both occur and no command is delivered. Two
  commands are queued while the token fetch is under way; a \<^verbatim>\<open>flutter_ready\<close> message of
  the tenant's origin reaches the listener before the iframe exists and is accepted (the
  origin is still \<^verbatim>\<open>'*'\<close>); its flush runs without a window and drops the queue, as in
  claim C1; the iframe is created and loads, and its load event finds the queue empty.
  Both \<^verbatim>\<open>aventora:ready\<close> and \<^verbatim>\<open>aventora:iframe-ready\<close> were dispatched, nothing was
  posted.
\<close>

theorem C2_both_signals_deliver_nothing:
  "pendingMessages two_queued = [hi_message, bye_message]
   \<and> posted two_queued = []
   \<and> events both_signals_run
       = [(''aventora:message-sent'', Sent (JStr ''hi'') no_options),
          (''aventora:message-sent'',
             Sent (JStr ''bye'') \<lparr>opt_autoSend = JBool True, opt_file = JUndefined\<rparr>),
          (''aventora:ready'', Instance),
          (''aventora:message'', Data (JObj [(''type'', JStr ''flutter_ready'')])),
          (''aventora:iframe-ready'', Instance)]
   \<and> has_window both_signals_run \<and> iframeReady both_signals_run
   \<and> posted both_signals_run = []
   \<and> pendingMessages both_signals_run = []"
  by code_simp

section \<open>C3: autoSend\<close>




















section \<open>C4: a token fetch that is refused\<close>

lemma fetchToken_catch_fields:
  "error (fetchToken_catch msg s) = Some msg"
  "loading (fetchToken_catch msg s) = False"
  "token (fetchToken_catch msg s) = token s"
  "posted (fetchToken_catch msg s) = posted s"
  "pendingMessages (fetchToken_catch msg s) = pendingMessages s"
  "iframe s = None \<Longrightarrow> iframe (fetchToken_catch msg s) = None"
  "\<not> has_window s \<Longrightarrow> \<not> has_window (fetchToken_catch msg s)"
  "iframeContainer s \<noteq> None \<Longrightarrow> \<not> has_window (fetchToken_catch msg s)"
  "iframeContainer s \<noteq> None \<Longrightarrow>
     iframeContainer (fetchToken_catch msg s) = Some (Html (error_html msg))"
  by (auto simp add: fetchToken_catch_def updateErrorState_def set_innerHTML_def has_window_def
      split: option.splits)

lemma fetchToken_begin_fields:
  "token (fetchToken_begin s) = token s"
  "posted (fetchToken_begin s) = posted s"
  "pendingMessages (fetchToken_begin s) = pendingMessages s"
  "iframe s = None \<Longrightarrow> iframe (fetchToken_begin s) = None"
  "(iframeContainer (fetchToken_begin s) = None) = (iframeContainer s = None)"
  by (auto simp add: fetchToken_begin_def updateLoadingState_def set_innerHTML_def
      split: option.splits)




section \<open>C5: the inbound filter\<close>











section \<open>C6: resolving the base URL\<close>

lemma str_split_no_sep: "c \<notin> set l \<Longrightarrow> str_split c l = [l]"
  by (induction l) auto

lemma str_split_append_sep:
  "c \<notin> set l \<Longrightarrow> str_split c (l @ c # r) = l # str_split c r"
  by (induction l) auto

lemma str_split_join:
  "ls \<noteq> [] \<Longrightarrow> \<forall>l\<in>set ls. c \<notin> set l \<Longrightarrow> str_split c (str_join [c] ls) = ls"
proof (induction "[c]" ls rule: str_join.induct)
  case 1
  then show ?case by simp
next
  case (2 x)
  then show ?case by (simp add: str_split_no_sep)
next
  case (3 x y ys)
  then show ?case by (simp add: str_split_append_sep)
qed

lemma serverConfigUrl_failed: "serverConfigUrl r = None \<longleftrightarrow> config_fetch_failed r"
proof (cases r)
  case (NetworkError m)
  then show ?thesis by (simp add: serverConfigUrl_def)
next
  case (Response ok body)
  then show ?thesis
    by (cases body) (auto simp add: serverConfigUrl_def split: option.splits)
qed

lemma getChatbotUrl_fallback:
  "chatbotUrl cfg = [] \<Longrightarrow> config_fetch_failed (net ''/api/config'') \<Longrightarrow>
   getChatbotUrl cfg net loc = (JStr (autoDetectUrl (tenant cfg) loc), [''/api/config''])"
  using serverConfigUrl_failed [of "net ''/api/config''"]
  by (simp add: getChatbotUrl_def)

lemma autoDetect_two_labels:
  assumes "\<not> str_includes (hostname loc) ''localhost''"
    and "\<not> str_includes (hostname loc) ''127.0.0.1''"
    and "hostname loc = str_join ''.'' (ls @ [a, b])"
    and "\<forall>l\<in>set (ls @ [a, b]). CHR ''.'' \<notin> set l"
  shows "autoDetectUrl tn loc = ''https://'' @ tn @ ''.'' @ a @ ''.'' @ b"
proof -
  have "str_split CHR ''.'' (hostname loc) = ls @ [a, b]"
    using assms(3,4) str_split_join [of "ls @ [a, b]" "CHR ''.''"] by simp
  then show ?thesis
    using assms(1,2) by (simp add: autoDetectUrl_def)
qed

lemma autoDetect_one_label:
  assumes "\<not> str_includes (hostname loc) ''localhost''"
    and "\<not> str_includes (hostname loc) ''127.0.0.1''"
    and "CHR ''.'' \<notin> set (hostname loc)"
  shows "autoDetectUrl tn loc = ''https://'' @ tn @ ''.aventora.app''"
  using assms by (simp add: autoDetectUrl_def str_split_no_sep)

text \<open>
  Claim C6, as amended: a configured base URL is returned as it is, with no request.
  Without one, \<^verbatim>\<open>getChatbotUrl\<close> makes one request to \<^verbatim>\<open>/api/config\<close>, and when that
  fails (rejected, not ok, malformed body, no usable \<^verbatim>\<open>chatbotBaseUrl\<close>) the URL is a
  function of the host name, the port and the tenant alone: for a host name that contains
  \<^verbatim>\<open>localhost\<close> or \<^verbatim>\<open>127.0.0.1\<close> a localhost URL with the page's port, 3000 when the
  page has none (\<^verbatim>\<open>http://localhost:PORT\<close> when the host name is exactly one of the two,
  \<^verbatim>\<open>http://TENANT.localhost:PORT\<close> otherwise); for any other host name the tenant's
  subdomain of the last two labels when there are at least two, and
  \<^verbatim>\<open>https://TENANT.aventora.app\<close> when there is one.
\<close>

theorem C6_resolution_rule:
  "(chatbotUrl cfg \<noteq> [] \<longrightarrow> getChatbotUrl cfg net loc = (JStr (chatbotUrl cfg), []))
   \<and> (chatbotUrl cfg = [] \<longrightarrow> snd (getChatbotUrl cfg net loc) = [''/api/config''])
   \<and> (chatbotUrl cfg = [] \<and> config_fetch_failed (net ''/api/config'') \<longrightarrow>
        (\<exists>u. fst (getChatbotUrl cfg net loc) = JStr u
          \<and> (hostname loc = ''localhost'' \<or> hostname loc = ''127.0.0.1'' \<longrightarrow>
                u = ''http://localhost:'' @ (if port loc = [] then ''3000'' else port loc))
          \<and> ((str_includes (hostname loc) ''localhost'' \<or> str_includes (hostname loc) ''127.0.0.1'')
               \<and> hostname loc \<noteq> ''localhost'' \<and> hostname loc \<noteq> ''127.0.0.1'' \<longrightarrow>
                u = ''http://'' @ tenant cfg @ ''.localhost:''
                      @ (if port loc = [] then ''3000'' else port loc))
          \<and> (\<not> str_includes (hostname loc) ''localhost''
               \<and> \<not> str_includes (hostname loc) ''127.0.0.1'' \<longrightarrow>
                (\<forall>ls a b. hostname loc = str_join ''.'' (ls @ [a, b])
                     \<and> (\<forall>l\<in>set (ls @ [a, b]). CHR ''.'' \<notin> set l) \<longrightarrow>
                   u = ''https://'' @ tenant cfg @ ''.'' @ a @ ''.'' @ b)
                \<and> (CHR ''.'' \<notin> set (hostname loc) \<longrightarrow>
                   u = ''https://'' @ tenant cfg @ ''.aventora.app''))))
   \<and> (chatbotUrl cfg = [] \<and> chatbotUrl cfg' = [] \<and> tenant cfg = tenant cfg'
        \<and> config_fetch_failed (net ''/api/config'') \<and> config_fetch_failed (net' ''/api/config'') \<longrightarrow>
        fst (getChatbotUrl cfg net loc) = fst (getChatbotUrl cfg' net' loc))"
proof -
  have p1: "chatbotUrl cfg \<noteq> [] \<longrightarrow> getChatbotUrl cfg net loc = (JStr (chatbotUrl cfg), [])"
    by (simp add: getChatbotUrl_def)
  have p2: "chatbotUrl cfg = [] \<longrightarrow> snd (getChatbotUrl cfg net loc) = [''/api/config'']"
    by (simp add: getChatbotUrl_def split: option.splits)
  have loc1: "hostname loc = ''localhost'' \<or> hostname loc = ''127.0.0.1'' \<Longrightarrow>
      autoDetectUrl (tenant cfg) loc
        = ''http://localhost:'' @ (if port loc = [] then ''3000'' else port loc)"
    by (auto simp add: autoDetectUrl_def)
  have loc2: "(str_includes (hostname loc) ''localhost'' \<or> str_includes (hostname loc) ''127.0.0.1'')
      \<and> hostname loc \<noteq> ''localhost'' \<and> hostname loc \<noteq> ''127.0.0.1'' \<Longrightarrow>
      autoDetectUrl (tenant cfg) loc
        = ''http://'' @ tenant cfg @ ''.localhost:'' @ (if port loc = [] then ''3000'' else port loc)"
    by (auto simp add: autoDetectUrl_def)
  have p3: "chatbotUrl cfg = [] \<and> config_fetch_failed (net ''/api/config'') \<longrightarrow>
        (\<exists>u. fst (getChatbotUrl cfg net loc) = JStr u
          \<and> (hostname loc = ''localhost'' \<or> hostname loc = ''127.0.0.1'' \<longrightarrow>
                u = ''http://localhost:'' @ (if port loc = [] then ''3000'' else port loc))
          \<and> ((str_includes (hostname loc) ''localhost'' \<or> str_includes (hostname loc) ''127.0.0.1'')
               \<and> hostname loc \<noteq> ''localhost'' \<and> hostname loc \<noteq> ''127.0.0.1'' \<longrightarrow>
                u = ''http://'' @ tenant cfg @ ''.localhost:''
                      @ (if port loc = [] then ''3000'' else port loc))
          \<and> (\<not> str_includes (hostname loc) ''localhost''
               \<and> \<not> str_includes (hostname loc) ''127.0.0.1'' \<longrightarrow>
                (\<forall>ls a b. hostname loc = str_join ''.'' (ls @ [a, b])
                     \<and> (\<forall>l\<in>set (ls @ [a, b]). CHR ''.'' \<notin> set l) \<longrightarrow>
                   u = ''https://'' @ tenant cfg @ ''.'' @ a @ ''.'' @ b)
                \<and> (CHR ''.'' \<notin> set (hostname loc) \<longrightarrow>
                   u = ''https://'' @ tenant cfg @ ''.aventora.app'')))"
  proof (intro impI, elim conjE)
    assume e: "chatbotUrl cfg = []" and f: "config_fetch_failed (net ''/api/config'')"
    have "fst (getChatbotUrl cfg net loc) = JStr (autoDetectUrl (tenant cfg) loc)"
      using getChatbotUrl_fallback [of cfg net loc, OF e f] by simp
    then show "\<exists>u. fst (getChatbotUrl cfg net loc) = JStr u
          \<and> (hostname loc = ''localhost'' \<or> hostname loc = ''127.0.0.1'' \<longrightarrow>
                u = ''http://localhost:'' @ (if port loc = [] then ''3000'' else port loc))
          \<and> ((str_includes (hostname loc) ''localhost'' \<or> str_includes (hostname loc) ''127.0.0.1'')
               \<and> hostname loc \<noteq> ''localhost'' \<and> hostname loc \<noteq> ''127.0.0.1'' \<longrightarrow>
                u = ''http://'' @ tenant cfg @ ''.localhost:''
                      @ (if port loc = [] then ''3000'' else port loc))
          \<and> (\<not> str_includes (hostname loc) ''localhost''
               \<and> \<not> str_includes (hostname loc) ''127.0.0.1'' \<longrightarrow>
                (\<forall>ls a b. hostname loc = str_join ''.'' (ls @ [a, b])
                     \<and> (\<forall>l\<in>set (ls @ [a, b]). CHR ''.'' \<notin> set l) \<longrightarrow>
                   u = ''https://'' @ tenant cfg @ ''.'' @ a @ ''.'' @ b)
                \<and> (CHR ''.'' \<notin> set (hostname loc) \<longrightarrow>
                   u = ''https://'' @ tenant cfg @ ''.aventora.app''))"
      using loc1 loc2 autoDetect_two_labels [of loc _ _ _ "tenant cfg"]
        autoDetect_one_label [of loc "tenant cfg"]
      by (intro exI [of _ "autoDetectUrl (tenant cfg) loc"] conjI impI allI) blast+
  qed
  have p4: "chatbotUrl cfg = [] \<and> chatbotUrl cfg' = [] \<and> tenant cfg = tenant cfg'
        \<and> config_fetch_failed (net ''/api/config'') \<and> config_fetch_failed (net' ''/api/config'') \<longrightarrow>
        fst (getChatbotUrl cfg net loc) = fst (getChatbotUrl cfg' net' loc)"
    by (simp add: getChatbotUrl_fallback)
  from p1 p2 p3 p4 show ?thesis by blast
qed

theorem C6_witness:
  "chatbotUrl demo_config = [] \<and> config_fetch_failed (net_down ''/api/config'')
   \<and> \<not> str_includes (hostname demo_location) ''localhost''
   \<and> \<not> str_includes (hostname demo_location) ''127.0.0.1''
   \<and> hostname demo_location = str_join ''.'' ([''www''] @ [''example'', ''com''])
   \<and> fst (getChatbotUrl demo_config net_down demo_location)
       = JStr (''https://'' @ tenant demo_config @ ''.'' @ ''example'' @ ''.'' @ ''com'')
   \<and> snd (getChatbotUrl demo_config net_down demo_location) = [''/api/config'']"
proof -
  have h1: "chatbotUrl demo_config = []" by (simp add: demo_config_def)
  have h2: "config_fetch_failed (net_down ''/api/config'')" by (simp add: net_down_def)
  have h3: "\<not> str_includes (hostname demo_location) ''localhost''"
    and h3': "\<not> str_includes (hostname demo_location) ''127.0.0.1''"
    by (simp_all add: demo_location_def)
  have h4: "hostname demo_location = str_join ''.'' ([''www''] @ [''example'', ''com''])"
    by (simp add: demo_location_def)
  have h5: "\<forall>l\<in>set ([''www''] @ [''example'', ''com'']). CHR ''.'' \<notin> set l"
    by simp
  note T = C6_resolution_rule [of demo_config net_down demo_location demo_config net_down]
  from T h1 have s: "snd (getChatbotUrl demo_config net_down demo_location) = [''/api/config'']"
    by blast
  from T h1 h2 obtain u where
    u: "fst (getChatbotUrl demo_config net_down demo_location) = JStr u"
    and two: "\<not> str_includes (hostname demo_location) ''localhost''
               \<and> \<not> str_includes (hostname demo_location) ''127.0.0.1'' \<longrightarrow>
                (\<forall>ls a b. hostname demo_location = str_join ''.'' (ls @ [a, b])
                     \<and> (\<forall>l\<in>set (ls @ [a, b]). CHR ''.'' \<notin> set l) \<longrightarrow>
                   u = ''https://'' @ tenant demo_config @ ''.'' @ a @ ''.'' @ b)
                \<and> (CHR ''.'' \<notin> set (hostname demo_location) \<longrightarrow>
                   u = ''https://'' @ tenant demo_config @ ''.aventora.app'')"
    by blast
  from two h3 h3' have
    al: "\<forall>ls a b. hostname demo_location = str_join ''.'' (ls @ [a, b])
                     \<and> (\<forall>l\<in>set (ls @ [a, b]). CHR ''.'' \<notin> set l) \<longrightarrow>
                   u = ''https://'' @ tenant demo_config @ ''.'' @ a @ ''.'' @ b"
    by blast
  have inst: "hostname demo_location = str_join ''.'' ([''www''] @ [''example'', ''com''])
              \<and> (\<forall>l\<in>set ([''www''] @ [''example'', ''com'']). CHR ''.'' \<notin> set l)"
    using h4 h5 by (rule conjI)
  from al [THEN spec, THEN spec, THEN spec, THEN mp, OF inst]
  have "u = ''https://'' @ tenant demo_config @ ''.'' @ ''example'' @ ''.'' @ ''com''" .
  with u have f: "fst (getChatbotUrl demo_config net_down demo_location)
       = JStr (''https://'' @ tenant demo_config @ ''.'' @ ''example'' @ ''.'' @ ''com'')"
    by (simp only:)
  from h1 h2 h3 h3' h4 f s show ?thesis by blast
qed

text \<open>
  The claim as it was stated fails at the host name \<^verbatim>\<open>127.0.0.1\<close>: it has four labels,
  yet the URL is not the tenant's subdomain of the last two (\<^verbatim>\<open>https://demo.0.1\<close>) but a
  localhost URL; and with the same host name and tenant the URL changes with the port.
\<close>

theorem C6_counterexample:
  "length (str_split CHR ''.'' ''127.0.0.1'') = 4
   \<and> chatbotUrl demo_config = [] \<and> config_fetch_failed (net_down ''/api/config'')
   \<and> fst (getChatbotUrl demo_config net_down \<lparr>hostname = ''127.0.0.1'', port = []\<rparr>)
       = JStr ''http://localhost:3000''
   \<and> fst (getChatbotUrl demo_config net_down \<lparr>hostname = ''127.0.0.1'', port = []\<rparr>)
       \<noteq> JStr ''https://demo.0.1''
   \<and> fst (getChatbotUrl demo_config net_down \<lparr>hostname = ''127.0.0.1'', port = ''8080''\<rparr>)
       = JStr ''http://localhost:8080''"
  by code_simp

section \<open>C7: announcing a command\<close>

lemma open_widget_dispatches:
  "chatPanel s \<noteq> None \<Longrightarrow> events (open_widget s) = events s @ [(''aventora:opened'', Instance)]"
  by (auto simp add: open_widget_def dispatchEvent_def)

lemma close_widget_dispatches:
  "chatPanel s \<noteq> None \<Longrightarrow> events (close_widget s) = events s @ [(''aventora:closed'', Instance)]"
  by (auto simp add: close_widget_def dispatchEvent_def)

lemma sendMessage_dispatches:
  "\<not> is_File (opt_file opts) \<Longrightarrow>
   events (snd (sendMessage pf tx opts s))
     = events s @ [(''aventora:message-sent'', Sent tx opts)]"
  by (simp add: sendMessage_def make_message_is_File dispatchEvent_def sendToIframe_events)

lemma sendMessage_File_silent:
  "is_File (opt_file opts) \<Longrightarrow> events (snd (sendMessage pf tx opts s)) = events s"
  by (cases "opt_file opts") (simp_all add: sendMessage_def make_message_def or_else_def)

lemma reader_onload_silent: "events (reader_onload pf k res s) = events s"
  using sendToIframe_cases
    [of "s\<lparr>readers := take k (readers s) @ drop (Suc k) (readers s)\<rparr>" pf
        "(readers s ! k)\<lparr>msg_file := JStr res\<rparr>"]
  by (auto simp add: reader_onload_def enqueue_def)

text \<open>
  Claim C7: every successful call of the command API also dispatches its event on the
  window, for all arguments, also for \<^verbatim>\<open>sendMessage\<close> with a File.

  \<^verbatim>\<open>open\<close>, \<^verbatim>\<open>close\<close> and \<^verbatim>\<open>sendMessage\<close> without a File dispatch their event (the
  first three lemmas above). But \<^verbatim>\<open>sendMessage\<close> returns from its File branch before
  the \<^verbatim>\<open>dispatchEvent\<close>, and \<^verbatim>\<open>reader.onload\<close> only sends (the last two lemmas). The
  theorem evaluates the call on the mounted component: with a File no event is
  dispatched, neither by the call nor when the read completes and the command is posted;
  the same call without a file dispatches \<^verbatim>\<open>aventora:message-sent\<close>.
\<close>

theorem C7_file_message_not_announced:
  "events mounted_widget = []
   \<and> events (snd (sendMessage demo_platform (JStr ''hi'') file_options mounted_widget)) = []
   \<and> events (reader_onload demo_platform 0 ''data:text/plain;base64,YWJj''
               (snd (sendMessage demo_platform (JStr ''hi'') file_options mounted_widget))) = []
   \<and> posted (reader_onload demo_platform 0 ''data:text/plain;base64,YWJj''
               (snd (sendMessage demo_platform (JStr ''hi'') file_options mounted_widget)))
       = deliveries ''https://demo.aventora.app''
           [\<lparr>msg_text = JStr ''hi'', msg_autoSend = JBool True,
             msg_file = JStr ''data:text/plain;base64,YWJj''\<rparr>]
   \<and> events (snd (sendMessage demo_platform (JStr ''hi'') no_options mounted_widget))
       = [(''aventora:message-sent'', Sent (JStr ''hi'') no_options)]"
  by code_simp

section \<open>C8: a File is encoded before it reaches the bridge\<close>

text \<open>
  Claim C8: a \<^verbatim>\<open>sendMessage\<close> whose file is an in-memory File does not enter the send and
  queue path until the encoding has completed, and what is then sent or queued carries
  the encoded string, never the File.
\<close>

theorem C8_file_encoded_before_bridge:
  assumes "opt_file opts = JFile f"
  shows
    "posted (snd (sendMessage pf tx opts s)) = posted s
     \<and> pendingMessages (snd (sendMessage pf tx opts s)) = pendingMessages s
     \<and> readers (snd (sendMessage pf tx opts s)) = readers s @ [make_message tx opts]
     \<and> reader_onload pf (length (readers s)) res (snd (sendMessage pf tx opts s))
         = snd (sendToIframe pf ((make_message tx opts)\<lparr>msg_file := JStr res\<rparr>) s)
     \<and> (\<forall>p\<in>set (drop (length (posted s))
                    (posted (reader_onload pf (length (readers s)) res
                               (snd (sendMessage pf tx opts s))))).
          get_prop (fst p) ''file'' = Some (JStr res))
     \<and> (\<forall>q\<in>set (drop (length (pendingMessages s))
                    (pendingMessages (reader_onload pf (length (readers s)) res
                               (snd (sendMessage pf tx opts s))))).
          msg_file q = JStr res)"
proof -
  let ?m = "make_message tx opts"
  let ?s1 = "snd (sendMessage pf tx opts s)"
  have f: "is_File (msg_file ?m)"
    using assms by (simp add: make_message_def or_else_def)
  have s1: "?s1 = s\<lparr>readers := readers s @ [?m]\<rparr>"
    using f by (simp add: sendMessage_def)
  have r: "reader_onload pf (length (readers s)) res ?s1
             = snd (sendToIframe pf (?m\<lparr>msg_file := JStr res\<rparr>) s)"
    by (simp add: s1 reader_onload_def)
  have p: "\<forall>p\<in>set (drop (length (posted s))
                    (posted (snd (sendToIframe pf (?m\<lparr>msg_file := JStr res\<rparr>) s)))).
             get_prop (fst p) ''file'' = Some (JStr res)"
    using sendToIframe_new_posts [of _ s pf "?m\<lparr>msg_file := JStr res\<rparr>"]
      shapes_file [of _ "?m\<lparr>msg_file := JStr res\<rparr>"]
    by fastforce
  have q: "\<forall>q\<in>set (drop (length (pendingMessages s))
                    (pendingMessages (snd (sendToIframe pf (?m\<lparr>msg_file := JStr res\<rparr>) s)))).
             msg_file q = JStr res"
    using sendToIframe_new_pending [of _ s pf "?m\<lparr>msg_file := JStr res\<rparr>"]
    by fastforce
  from p q show ?thesis unfolding r by (simp add: s1)
qed

theorem C8_witness:
  "opt_file file_options = JFile demo_file
   \<and> posted (snd (sendMessage demo_platform (JStr ''hi'') file_options mounted_widget)) = []
   \<and> readers (snd (sendMessage demo_platform (JStr ''hi'') file_options mounted_widget))
       = [\<lparr>msg_text = JStr ''hi'', msg_autoSend = JBool True, msg_file = JFile demo_file\<rparr>]
   \<and> posted (reader_onload demo_platform 0 ''data:text/plain;base64,YWJj''
               (snd (sendMessage demo_platform (JStr ''hi'') file_options mounted_widget)))
       = map (\<lambda>w. (w, ''https://demo.aventora.app''))
           (shapes \<lparr>msg_text = JStr ''hi'', msg_autoSend = JBool True,
                    msg_file = JStr ''data:text/plain;base64,YWJj''\<rparr>)"
proof -
  have h: "opt_file file_options = JFile demo_file" by (simp add: file_options_def)
  have w: "has_window mounted_widget" by (simp add: mounted_widget_eval has_window_def)
  have c: "list_all (\<lambda>w. can_post demo_platform w (chatbotOrigin mounted_widget)) (shapes m)" for m
    by (simp add: demo_platform_def shapes_def)
  have mm: "make_message (JStr ''hi'') file_options
              = \<lparr>msg_text = JStr ''hi'', msg_autoSend = JBool True, msg_file = JFile demo_file\<rparr>"
    by (simp add: make_message_def file_options_def or_else_def)
  have p0: "posted mounted_widget = []" and r0: "readers mounted_widget = []"
    and o0: "chatbotOrigin mounted_widget = ''https://demo.aventora.app''"
    by (simp_all add: mounted_widget_eval)
  from C8_file_encoded_before_bridge
         [where opts = file_options and f = demo_file and pf = demo_platform
            and tx = "JStr ''hi''" and s = mounted_widget
            and res = "''data:text/plain;base64,YWJj''", OF h]
       h
  show ?thesis
    by (simp add: sendToIframe_window [OF w c] mm p0 r0 o0)
qed

section \<open>C9: calls after a failure\<close>

lemma sendMessage_no_window:
  assumes "\<not> is_File (opt_file opts)" and "\<not> has_window s"
  shows "sendMessage pf tx opts s
           = (JUndefined,
              dispatchEvent (''aventora:message-sent'', Sent tx opts)
                (enqueue (make_message tx opts) s))"
  using assms
  by (simp add: sendMessage_def make_message_is_File sendToIframe_no_window)

lemma iframe_onerror_fields:
  "error (iframe_onerror s) = Some ''Failed to load chatbot''"
  "iframeContainer s \<noteq> None \<Longrightarrow> \<not> has_window (iframe_onerror s)"
  by (auto simp add: iframe_onerror_def updateErrorState_def set_innerHTML_def has_window_def
      split: option.splits)

text \<open>
  Claim C9, as amended: the component has no failed state that the command API consults.
  After the error handler of the iframe has run, or after a token fetch that was rejected
  or refused, \<^verbatim>\<open>this.error\<close> is set and \<^verbatim>\<open>sendMessage\<close> (without a File) behaves as before
  any load: it returns \<^verbatim>\<open>undefined\<close>, appends the command to the pending queue and
  dispatches \<^verbatim>\<open>aventora:message-sent\<close>.
\<close>

theorem C9_calls_after_failure_are_queued:
  assumes nf: "\<not> is_File (opt_file opts)"
    and fl: "(s' = iframe_onerror s \<and> iframeContainer s \<noteq> None)
             \<or> (s' = fetchToken_resume pf net loc (NetworkError m) s \<and> iframe s = None)
             \<or> (s' = fetchToken_resume pf net loc (Response False body) s \<and> iframe s = None)"
  shows "error s' \<noteq> None
         \<and> sendMessage pf tx opts s'
             = (JUndefined,
                dispatchEvent (''aventora:message-sent'', Sent tx opts)
                  (enqueue (make_message tx opts) s'))"
proof -
  have nw: "iframe s = None \<Longrightarrow> \<not> has_window (fetchToken_catch e s)" for e
    by (rule fetchToken_catch_fields(7)) (simp add: has_window_def)
  from fl have "error s' \<noteq> None \<and> \<not> has_window s'"
    by (auto simp add: iframe_onerror_fields fetchToken_resume_def fetchToken_catch_fields(1) nw)
  with nf show ?thesis
    by (simp add: sendMessage_no_window)
qed

theorem C9_witness:
  "\<not> is_File (opt_file no_options)
   \<and> failed_widget
       = fetchToken_resume demo_platform net_500 demo_location
           (Response False (Inr (JObj [(''error'', JStr ''bad key'')])))
           (fetchToken_begin (new_widget demo_config))
   \<and> iframe (fetchToken_begin (new_widget demo_config)) = None
   \<and> sendMessage demo_platform (JStr ''hi'') no_options failed_widget
       = (JUndefined,
          dispatchEvent (''aventora:message-sent'', Sent (JStr ''hi'') no_options)
            (enqueue (make_message (JStr ''hi'') no_options) failed_widget))"
proof -
  have h1: "\<not> is_File (opt_file no_options)" by (simp add: no_options_def)
  have h2: "failed_widget
       = fetchToken_resume demo_platform net_500 demo_location
           (Response False (Inr (JObj [(''error'', JStr ''bad key'')])))
           (fetchToken_begin (new_widget demo_config))"
    by (simp add: failed_widget_def fetchToken_def net_500_def)
  have h3: "iframe (fetchToken_begin (new_widget demo_config)) = None"
    by (simp add: fetchToken_begin_fields new_widget_def)
  from C9_calls_after_failure_are_queued
         [where opts = no_options and s' = failed_widget
            and s = "fetchToken_begin (new_widget demo_config)"
            and pf = demo_platform and net = net_500 and loc = demo_location
            and body = "Inr (JObj [(''error'', JStr ''bad key'')])" and tx = "JStr ''hi''",
          OF h1] h1 h2 h3
  show ?thesis by simp
qed

text \<open>
  The claim as it was stated, that such a call reports failure instead of queueing, fails
  after the HTTP 500 of the example and after the iframe's error handler: the call returns
  \<^verbatim>\<open>undefined\<close>, the command is in the queue, and the event announces it as sent.
\<close>

theorem C9_counterexample:
  "error failed_widget = Some ''bad key'' \<and> \<not> has_window failed_widget
   \<and> sendMessage demo_platform (JStr ''hi'') no_options failed_widget
       = (JUndefined,
          failed_widget\<lparr>pendingMessages := [hi_message],
                         events := [(''aventora:message-sent'', Sent (JStr ''hi'') no_options)]\<rparr>)
   \<and> error (iframe_onerror mounted_widget) = Some ''Failed to load chatbot''
   \<and> pendingMessages (snd (sendMessage demo_platform (JStr ''hi'') no_options
                             (iframe_onerror mounted_widget))) = [hi_message]"
  by code_simp

section \<open>C10: error text in the panel\<close>

lemma escaped_text_escape_char: "escaped_text (escape_char c @ r) = escaped_text r"
  by (simp add: escape_char_def)

lemma escaped_text_escapeHtml: "escaped_text (escapeHtml t)"
  by (induction t) (simp_all add: escapeHtml_def escaped_text_escape_char)

lemma unescape_escape_char: "unescapeHtml (escape_char c @ r) = c # unescapeHtml r"
  by (simp add: escape_char_def)

lemma unescape_escapeHtml: "unescapeHtml (escapeHtml t) = t"
  by (induction t) (simp_all add: escapeHtml_def unescape_escape_char)

lemma escaped_text_no_delims: "escaped_text t \<Longrightarrow> CHR ''<'' \<notin> set t \<and> CHR ''>'' \<notin> set t"
  by (induction t) (auto split: if_splits)

text \<open>
  Claim C10: every error string that is put into the panel goes through \<^verbatim>\<open>escapeHtml\<close>
  first, so the markup holds no unescaped special character of the string and the string
  cannot add elements.

  The escaped string has no \<^verbatim>\<open><\<close> and no \<^verbatim>\<open>>\<close>, each of its ampersands opens a character
  reference, and it reads back as the original text. The three places that render an
  error, \<^verbatim>\<open>updateErrorState\<close> (from the \<^verbatim>\<open>catch\<close> of \<^verbatim>\<open>fetchToken\<close> and from the iframe's
  error handler) and the template of \<^verbatim>\<open>getHTML\<close>, put the escaped string between fixed
  markup.
\<close>

theorem C10_error_text_is_escaped:
  "escaped_text (escapeHtml e)
   \<and> CHR ''<'' \<notin> set (escapeHtml e) \<and> CHR ''>'' \<notin> set (escapeHtml e)
   \<and> unescapeHtml (escapeHtml e) = e
   \<and> (iframeContainer s \<noteq> None \<longrightarrow>
        iframeContainer (updateErrorState (s\<lparr>error := Some e\<rparr>))
          = Some (Html (''<div class=\"error-state\">Error: '' @ escapeHtml e @ ''</div>''))
        \<and> iframeContainer (fetchToken_catch e s)
          = Some (Html (''<div class=\"error-state\">Error: '' @ escapeHtml e @ ''</div>''))
        \<and> iframeContainer (iframe_onerror s)
          = Some (Html (''<div class=\"error-state\">Error: ''
                        @ escapeHtml ''Failed to load chatbot'' @ ''</div>'')))
   \<and> (e \<noteq> [] \<longrightarrow>
        getHTML_container ld (Some e)
          = CHR 0x0A # replicate 14 CHR '' '' @ (if ld then loading_html else [])
            @ CHR 0x0A # replicate 14 CHR '' ''
            @ ''<div class=\"error-state\">Error: '' @ escapeHtml e @ ''</div>''
            @ CHR 0x0A # replicate 12 CHR '' '')"
  using escaped_text_escapeHtml [of e] escaped_text_no_delims [of "escapeHtml e"]
    unescape_escapeHtml [of e]
  by (auto simp add: updateErrorState_def set_innerHTML_def fetchToken_catch_def error_html_def
      getHTML_container_def iframe_onerror_def)

theorem C10_witness:
  "iframeContainer (new_widget demo_config) \<noteq> None
   \<and> ''<img src=x onerror=alert(1)>'' \<noteq> []
   \<and> escapeHtml ''<img src=x onerror=alert(1)>'' = ''&lt;img src=x onerror=alert(1)&gt;''
   \<and> iframeContainer (fetchToken_catch ''<img src=x onerror=alert(1)>'' (new_widget demo_config))
       = Some (Html ''<div class=\"error-state\">Error: &lt;img src=x onerror=alert(1)&gt;</div>'')"
proof -
  have h: "iframeContainer (new_widget demo_config) \<noteq> None" by (simp add: new_widget_def)
  have e: "escapeHtml ''<img src=x onerror=alert(1)>'' = ''&lt;img src=x onerror=alert(1)&gt;''"
    by (simp add: escapeHtml_def escape_char_def)
  from C10_error_text_is_escaped
         [of "''<img src=x onerror=alert(1)>''" "new_widget demo_config" True] h e
  show ?thesis by simp
qed

end
